theory Spec2Isabelle
  imports Complex_Main
begin

section \<open>The bully-election node of lab2.py\<close>

text \<open>
  The development embeds the class \<open>Lab2TCPServer\<close> of \<open>lab2/lab2.py\<close>. One call of
  a method is one function of the server's fields. Everything the method obtains from
  outside (the directory's answer, whether a peer accepts a connection, the moment at
  which another handler thread sets an event) is read from an \<open>environment\<close>, indexed by
  a counter of the interactions made so far, so that the same question may be answered
  differently each time. A method is followed as one thread runs it; what other handler
  threads do to the fields meanwhile is a separate call.
\<close>

subsection \<open>Data\<close>

text \<open>An identity is the pair \<open>(days_to_next_mother's_birthday, su_id)\<close>.\<close>

type_synonym ident = "int \<times> int"

type_synonym address = "string \<times> nat"

text \<open>
  A Python \<open>dict\<close> keeps its items in insertion order, and the broadcast loops walk the
  items in that order: the members table is a list of items.
\<close>

type_synonym registry = "(ident \<times> address) list"

text \<open>
  A message is a tuple \<open>(message_name, message_data, members_data)\<close>; \<open>handle_request\<close>
  reads the second and third component as \<open>None\<close> when the tuple is too short.
\<close>

record message =
  message_name :: string
  message_data :: "ident option"
  members_data :: "registry option"

text \<open>What \<open>pickle.loads(s.recv(4096))\<close> gives in \<open>connect_to_gcd\<close>, or the exception.\<close>

datatype gcd_response = GCD_failed | GCD_dict registry | GCD_other

text \<open>
  One pass through a \<open>try: connect; sendall\<close> block: where to, what, and whether the
  \<open>logging.info("Sent ...")\<close> line (\<open>delivered\<close>) or the \<open>logging.error("Failed ...")\<close> line
  of the handler was reached.
\<close>

record attempt =
  dest :: "address option"
  payload :: message
  delivered :: bool

record environment =
  gcd_reply :: "nat \<Rightarrow> gcd_response"
  reachable :: "nat \<Rightarrow> address \<Rightarrow> bool"
  ok_arrival :: "nat \<Rightarrow> real option"
  coord_arrival :: "nat \<Rightarrow> real option"

text \<open>
  The attributes of \<open>Lab2TCPServer\<close>. An event attribute is \<open>None\<close> until the first wait
  creates it (\<open>hasattr\<close> is false), then holds the event's flag. \<open>outbox\<close> and \<open>clock\<close> are
  the record of the sends attempted and the number of interactions with the environment.
\<close>

record server =
  identity :: ident
  in_election :: bool
  current_leader :: "ident option"
  members :: registry
  received_ok_event :: "bool option"
  received_coord_event :: "bool option"
  outbox :: "attempt list"
  clock :: nat

datatype exn = AttributeError

subsection \<open>Python primitives\<close>

text \<open>
  \<open>x > y\<close> on two tuples of two integers: the first components that differ decide,
  otherwise the second ones.
\<close>

definition tuple_gt :: "ident \<Rightarrow> ident \<Rightarrow> bool" where
  "tuple_gt x y = (if fst x \<noteq> fst y then fst x > fst y else snd x > snd y)"

text \<open>\<open>d[k] = v\<close>: an existing key keeps its place, a new one goes to the end.\<close>

fun dict_setitem :: "('k \<times> 'v) list \<Rightarrow> 'k \<Rightarrow> 'v \<Rightarrow> ('k \<times> 'v) list" where
  "dict_setitem [] k v = [(k, v)]"
| "dict_setitem ((k', v') # d) k v =
     (if k' = k then (k', v) # d else (k', v') # dict_setitem d k v)"

text \<open>\<open>d.update(other)\<close>: one \<open>d[k] = v\<close> for each item of \<open>other\<close>, in order.\<close>

fun dict_update :: "('k \<times> 'v) list \<Rightarrow> ('k \<times> 'v) list \<Rightarrow> ('k \<times> 'v) list" where
  "dict_update d [] = d"
| "dict_update d ((k, v) # other) = dict_update (dict_setitem d k v) other"

text \<open>\<open>d.get(k)\<close> is \<open>map_of d k\<close>. The keys of a dict are distinct.\<close>

definition wf_dict :: "('k \<times> 'v) list \<Rightarrow> bool" where
  "wf_dict d = distinct (map fst d)"

text \<open>
  \<open>Event.wait(timeout)\<close> on a fresh event: true when another thread sets the event
  before the timeout has passed; \<open>arrival\<close> is that moment, counted from the start of
  the wait, or \<open>None\<close> when nobody sets it.
\<close>

definition event_wait :: "real \<Rightarrow> real option \<Rightarrow> bool" where
  "event_wait timeout arrival = (case arrival of None \<Rightarrow> False | Some t \<Rightarrow> t < timeout)"

subsection \<open>Messages\<close>

definition election_message :: "ident \<Rightarrow> registry \<Rightarrow> message" where
  "election_message i m =
     \<lparr>message_name = ''ELECTION'', message_data = Some i, members_data = Some m\<rparr>"

definition ok_message :: message where
  "ok_message = \<lparr>message_name = ''OK'', message_data = None, members_data = None\<rparr>"

definition coordinator_message :: "ident \<Rightarrow> message" where
  "coordinator_message i =
     \<lparr>message_name = ''COORDINATOR'', message_data = Some i, members_data = None\<rparr>"

text \<open>
  The block \<open>try: with socket...: s.connect(addr); s.sendall(pickle.dumps(msg)) except
  Exception: logging.error(...)\<close>. \<open>s.connect(None)\<close> raises \<open>TypeError\<close>, which the handler
  catches like a refused connection or a timeout.
\<close>

definition try_send :: "environment \<Rightarrow> address option \<Rightarrow> message \<Rightarrow> server \<Rightarrow> server" where
  "try_send env a msg s =
     s\<lparr>outbox := outbox s @
          [\<lparr>dest = a, payload = msg,
            delivered = (case a of None \<Rightarrow> False | Some addr \<Rightarrow> reachable env (clock s) addr)\<rparr>],
       clock := Suc (clock s)\<rparr>"

subsection \<open>The methods\<close>

definition init_server :: "ident \<Rightarrow> server" where
  "init_server i =
     \<lparr>identity = i, in_election = False, current_leader = None, members = [],
      received_ok_event = None, received_coord_event = None, outbox = [], clock = 0\<rparr>"

definition connect_to_gcd :: "environment \<Rightarrow> server \<Rightarrow> server" where
  "connect_to_gcd env s =
     (case gcd_reply env (clock s) of
        GCD_dict response_data \<Rightarrow> s\<lparr>members := response_data, clock := Suc (clock s)\<rparr>
      | GCD_other \<Rightarrow> s\<lparr>clock := Suc (clock s)\<rparr>
      | GCD_failed \<Rightarrow> s\<lparr>clock := Suc (clock s)\<rparr>)"

definition higher_members :: "server \<Rightarrow> registry" where
  "higher_members s = filter (\<lambda>(ident, addr). tuple_gt ident (identity s)) (members s)"

text \<open>The loop \<open>for ident, addr in higher_members.items()\<close> of \<open>start_election\<close>.\<close>

fun send_election :: "environment \<Rightarrow> registry \<Rightarrow> server \<Rightarrow> server" where
  "send_election env [] s = s"
| "send_election env ((ident, addr) # rest) s =
     send_election env rest
       (try_send env (Some addr) (election_message (identity s) (members s)) s)"

text \<open>The loop \<open>for ident, addr in self.members.items()\<close> of \<open>declare_leader\<close>.\<close>

fun send_coordinator :: "environment \<Rightarrow> registry \<Rightarrow> server \<Rightarrow> server" where
  "send_coordinator env [] s = s"
| "send_coordinator env ((ident, addr) # rest) s =
     (if ident = identity s then send_coordinator env rest s
      else send_coordinator env rest
             (try_send env (Some addr) (coordinator_message (identity s)) s))"

definition declare_leader :: "environment \<Rightarrow> server \<Rightarrow> server" where
  "declare_leader env s =
     send_coordinator env (members s)
       (s\<lparr>current_leader := Some (identity s), in_election := False\<rparr>)"

definition handle_leader :: "ident option \<Rightarrow> server \<Rightarrow> server" where
  "handle_leader new_leader_identity s =
     s\<lparr>current_leader := new_leader_identity, in_election := False,
       received_coord_event :=
         (case received_coord_event s of None \<Rightarrow> None | Some _ \<Rightarrow> Some True)\<rparr>"

definition handle_ok_received :: "server \<Rightarrow> server" where
  "handle_ok_received s =
     s\<lparr>received_ok_event :=
         (case received_ok_event s of None \<Rightarrow> None | Some _ \<Rightarrow> Some True)\<rparr>"

text \<open>
  The first three statements of \<open>handle_ok\<close> and of \<open>wait_for_coordinator\<close>: a fresh
  event replaces the attribute, and the thread waits on it, 5 and 15 seconds at most.
  The arrival read from the environment is that of a signal on the fresh event: a message
  handled before the event exists sets the previous event, or none, and the wait does not
  see it.
\<close>

definition ok_wait :: "environment \<Rightarrow> server \<Rightarrow> bool \<times> server" where
  "ok_wait env s =
     (let ok_received = event_wait 5 (ok_arrival env (clock s))
      in (ok_received, s\<lparr>received_ok_event := Some ok_received, clock := Suc (clock s)\<rparr>))"

definition coord_wait :: "environment \<Rightarrow> server \<Rightarrow> bool \<times> server" where
  "coord_wait env s =
     (let coord_received = event_wait 15 (coord_arrival env (clock s))
      in (coord_received,
          s\<lparr>received_coord_event := Some coord_received, clock := Suc (clock s)\<rparr>))"

text \<open>
  \<open>wait_for_coordinator\<close> calls \<open>start_election\<close> again after a timeout, and nothing
  in the code bounds how often. The first argument is the number of such further
  elections the run may still start; \<open>None\<close> says that the run has not returned within
  them.
\<close>

fun start_election :: "nat \<Rightarrow> environment \<Rightarrow> server \<Rightarrow> server option"
  and handle_ok :: "nat \<Rightarrow> environment \<Rightarrow> server \<Rightarrow> server option"
  and wait_for_coordinator :: "nat \<Rightarrow> environment \<Rightarrow> server \<Rightarrow> server option"
where
  "start_election n env s =
     (if in_election s then Some s
      else if higher_members (connect_to_gcd env (s\<lparr>in_election := True\<rparr>)) = []
      then Some (declare_leader env (connect_to_gcd env (s\<lparr>in_election := True\<rparr>)))
      else handle_ok n env
             (send_election env
                (higher_members (connect_to_gcd env (s\<lparr>in_election := True\<rparr>)))
                (connect_to_gcd env (s\<lparr>in_election := True\<rparr>))))"
| "handle_ok n env s =
     (if fst (ok_wait env s) then wait_for_coordinator n env (snd (ok_wait env s))
      else Some (declare_leader env (snd (ok_wait env s))))"
| "wait_for_coordinator 0 env s =
     (if fst (coord_wait env s) then Some (snd (coord_wait env s)) else None)"
| "wait_for_coordinator (Suc n) env s =
     (if fst (coord_wait env s) then Some (snd (coord_wait env s))
      else start_election n env ((snd (coord_wait env s))\<lparr>in_election := False\<rparr>))"

text \<open>The three equations unfold each other: they are used by name only.\<close>

declare start_election.simps [simp del] handle_ok.simps [simp del]
  wait_for_coordinator.simps [simp del]

definition handle_election ::
  "nat \<Rightarrow> environment \<Rightarrow> ident option \<Rightarrow> address option \<Rightarrow> registry \<Rightarrow> server
     \<Rightarrow> server option" where
  "handle_election n env sender_identity sender_address sender_members s =
     (let s1 = try_send env sender_address ok_message
                 (s\<lparr>members := dict_update (members s) sender_members\<rparr>)
      in if \<not> in_election s1 then start_election n env s1 else Some s1)"

definition handle_request ::
  "nat \<Rightarrow> environment \<Rightarrow> message \<Rightarrow> server \<Rightarrow> (exn + server) option" where
  "handle_request n env m s =
     (if message_name m = ''ELECTION'' then
        (case members_data m of
           None \<Rightarrow> Some (Inl AttributeError)
         | Some d \<Rightarrow>
             map_option Inr
               (handle_election n env (message_data m)
                  (case message_data m of None \<Rightarrow> None | Some i \<Rightarrow> map_of d i) d s))
      else if message_name m = ''COORDINATOR'' then
        Some (Inr (handle_leader (message_data m) s))
      else if message_name m = ''OK'' then Some (Inr (handle_ok_received s))
      else Some (Inr s))"

subsection \<open>Vocabulary of the statements\<close>

text \<open>
  The state in which \<open>start_election\<close> selects the higher members: the flag is set and
  the directory has been asked.
\<close>

abbreviation refreshed :: "environment \<Rightarrow> server \<Rightarrow> server" where
  "refreshed env s \<equiv> connect_to_gcd env (s\<lparr>in_election := True\<rparr>)"

text \<open>
  The attempts that a broadcast loop started at interaction \<open>c\<close> adds when it walks the
  items \<open>xs\<close> with the message \<open>msg\<close>.
\<close>

fun attempts_for :: "environment \<Rightarrow> nat \<Rightarrow> message \<Rightarrow> registry \<Rightarrow> attempt list" where
  "attempts_for env c msg [] = []"
| "attempts_for env c msg ((i, a) # rest) =
     \<lparr>dest = Some a, payload = msg, delivered = reachable env c a\<rparr>
       # attempts_for env (Suc c) msg rest"

text \<open>The three nodes of the specification's scenario, and two environments.\<close>

definition addr_A :: address where "addr_A = (''localhost'', 5001)"
definition addr_B :: address where "addr_B = (''localhost'', 5002)"
definition addr_C :: address where "addr_C = (''localhost'', 5003)"

definition peers :: registry where
  "peers = [((5, 100), addr_A), ((5, 200), addr_B), ((10, 50), addr_C)]"

text \<open>Nobody answers: no directory, no peer, no event.\<close>

definition silent_env :: environment where
  "silent_env =
     \<lparr>gcd_reply = (\<lambda>c. GCD_failed), reachable = (\<lambda>c a. False),
      ok_arrival = (\<lambda>c. None), coord_arrival = (\<lambda>c. None)\<rparr>"

text \<open>
  The directory answers with \<open>d\<close>, every peer accepts, an OK comes after one second and
  a COORDINATOR after two.
\<close>

definition lively_env :: "registry \<Rightarrow> environment" where
  "lively_env d =
     \<lparr>gcd_reply = (\<lambda>c. GCD_dict d), reachable = (\<lambda>c a. True),
      ok_arrival = (\<lambda>c. Some 1), coord_arrival = (\<lambda>c. Some 2)\<rparr>"

text \<open>The directory knows all three nodes; the node at \<open>addr_B\<close> is down; no event arrives.\<close>

definition deaf_B_env :: environment where
  "deaf_B_env =
     \<lparr>gcd_reply = (\<lambda>c. GCD_dict peers), reachable = (\<lambda>c a. a \<noteq> addr_B),
      ok_arrival = (\<lambda>c. None), coord_arrival = (\<lambda>c. None)\<rparr>"


section \<open>Properties\<close>

subsection \<open>Frame lemmas of the send loops\<close>

lemma try_send_fields [simp]:
  "identity (try_send env a msg s) = identity s"
  "in_election (try_send env a msg s) = in_election s"
  "current_leader (try_send env a msg s) = current_leader s"
  "members (try_send env a msg s) = members s"
  "received_ok_event (try_send env a msg s) = received_ok_event s"
  "received_coord_event (try_send env a msg s) = received_coord_event s"
  "clock (try_send env a msg s) = Suc (clock s)"
  "outbox (try_send env a msg s) = outbox s @
     [\<lparr>dest = a, payload = msg,
       delivered = (case a of None \<Rightarrow> False | Some addr \<Rightarrow> reachable env (clock s) addr)\<rparr>]"
  by (simp_all add: try_send_def)

lemma send_election_fields [simp]:
  "identity (send_election env xs s) = identity s"
  "in_election (send_election env xs s) = in_election s"
  "current_leader (send_election env xs s) = current_leader s"
  "members (send_election env xs s) = members s"
  "received_ok_event (send_election env xs s) = received_ok_event s"
  "received_coord_event (send_election env xs s) = received_coord_event s"
  "clock (send_election env xs s) = clock s + length xs"
  by (induction env xs s rule: send_election.induct; simp)+

lemma send_coordinator_fields [simp]:
  "identity (send_coordinator env xs s) = identity s"
  "in_election (send_coordinator env xs s) = in_election s"
  "current_leader (send_coordinator env xs s) = current_leader s"
  "members (send_coordinator env xs s) = members s"
  "received_ok_event (send_coordinator env xs s) = received_ok_event s"
  "received_coord_event (send_coordinator env xs s) = received_coord_event s"
  by (induction env xs s rule: send_coordinator.induct; simp)+

lemma send_election_outbox:
  "outbox (send_election env xs s) =
     outbox s @ attempts_for env (clock s) (election_message (identity s) (members s)) xs"
  by (induction env xs s rule: send_election.induct) simp_all

lemma send_coordinator_outbox:
  "outbox (send_coordinator env xs s) =
     outbox s @ attempts_for env (clock s) (coordinator_message (identity s))
                  (filter (\<lambda>(i, a). i \<noteq> identity s) xs)"
  by (induction env xs s rule: send_coordinator.induct) simp_all

lemma attempts_for_dest:
  "map dest (attempts_for env c msg xs) = map (\<lambda>(i, a). Some a) xs"
  by (induction env c msg xs rule: attempts_for.induct) simp_all

lemma attempts_for_payload:
  "x \<in> set (attempts_for env c msg xs) \<Longrightarrow> payload x = msg"
  by (induction env c msg xs rule: attempts_for.induct) auto

lemma attempts_for_length:
  "length (attempts_for env c msg xs) = length xs"
  by (induction env c msg xs rule: attempts_for.induct) simp_all

lemma attempts_for_delivered:
  "j < length xs \<Longrightarrow>
     delivered (attempts_for env c msg xs ! j) = reachable env (c + j) (snd (xs ! j))"
proof (induction env c msg xs arbitrary: j rule: attempts_for.induct)
  case (1 env c msg)
  then show ?case by simp
next
  case (2 env c msg i a rest)
  then show ?case by (cases j) simp_all
qed

subsection \<open>The re-entry guard\<close>

text \<open>
  Claim C6. A call of \<open>start_election\<close> made while \<open>in_election\<close> is true returns at
  once, whatever the environment and however many further elections are allowed, and
  returns the server as it was: the flag, the leader, the members table, the events, the
  record of sends and the count of interactions are all unchanged, so nothing was sent
  and the directory was not asked.
\<close>

theorem start_election_reentry:
  "in_election s \<Longrightarrow> start_election n env s = Some s"
  by (simp add: start_election.simps)

theorem start_election_reentry_witness:
  "in_election ((init_server (5, 100))\<lparr>in_election := True, members := peers\<rparr>)
   \<and> start_election 0 (lively_env peers)
        ((init_server (5, 100))\<lparr>in_election := True, members := peers\<rparr>)
      = Some ((init_server (5, 100))\<lparr>in_election := True, members := peers\<rparr>)"
  using start_election_reentry
    [of "(init_server (5, 100))\<lparr>in_election := True, members := peers\<rparr>" 0 "lively_env peers"]
  by (simp add: init_server_def)

subsection \<open>The ranking of identities\<close>

text \<open>
  Claim C7. The comparison that ranks identities, Python's \<open>>\<close> on pairs, holds of
  \<open>(a, b)\<close> and \<open>(c, d)\<close> exactly when \<open>a > c\<close>, or \<open>a = c\<close> and \<open>b > d\<close>. It is a strict
  total order: irreflexive, transitive, asymmetric, and any two different identities are
  comparable, in particular any two with different second components, so there are no
  ties. It is the comparison by which \<open>start_election\<close> selects the higher members: the
  selected items are the items of the members table that satisfy it against the node's own
  identity, and the ELECTION messages go to their addresses, in the table's order.
\<close>

theorem identity_order:
  "(tuple_gt (a, b) (c, d) \<longleftrightarrow> a > c \<or> (a = c \<and> b > d))
   \<and> \<not> tuple_gt x x
   \<and> (tuple_gt x y \<longrightarrow> tuple_gt y z \<longrightarrow> tuple_gt x z)
   \<and> (tuple_gt x y \<longrightarrow> \<not> tuple_gt y x)
   \<and> (x \<noteq> y \<longrightarrow> tuple_gt x y \<or> tuple_gt y x)
   \<and> (snd x \<noteq> snd y \<longrightarrow> tuple_gt x y \<or> tuple_gt y x)
   \<and> higher_members s =
       filter (\<lambda>(i, addr). fst i > fst (identity s)
                 \<or> (fst i = fst (identity s) \<and> snd i > snd (identity s))) (members s)
   \<and> (\<not> in_election s \<longrightarrow> higher_members (refreshed env s) \<noteq> [] \<longrightarrow>
        start_election n env s =
          handle_ok n env (send_election env (higher_members (refreshed env s)) (refreshed env s)))
   \<and> map dest (outbox (send_election env (higher_members s) s)) =
       map dest (outbox s) @ map (\<lambda>(i, addr). Some addr) (higher_members s)"
proof -
  have ord: "tuple_gt (a, b) (c, d) \<longleftrightarrow> a > c \<or> (a = c \<and> b > d)"
    by (auto simp: tuple_gt_def)
  have irr: "\<not> tuple_gt x x" by (simp add: tuple_gt_def)
  have tr: "tuple_gt x y \<longrightarrow> tuple_gt y z \<longrightarrow> tuple_gt x z"
    by (auto simp: tuple_gt_def split: if_splits)
  have asym: "tuple_gt x y \<longrightarrow> \<not> tuple_gt y x"
    by (auto simp: tuple_gt_def split: if_splits)
  have tot: "x \<noteq> y \<longrightarrow> tuple_gt x y \<or> tuple_gt y x"
    by (auto simp: tuple_gt_def prod_eq_iff)
  have tie: "snd x \<noteq> snd y \<longrightarrow> tuple_gt x y \<or> tuple_gt y x"
    by (auto simp: tuple_gt_def)
  have sel: "higher_members s =
       filter (\<lambda>(i, addr). fst i > fst (identity s)
                 \<or> (fst i = fst (identity s) \<and> snd i > snd (identity s))) (members s)"
    unfolding higher_members_def
    by (rule filter_cong) (auto simp: tuple_gt_def split: if_splits)
  have run: "\<not> in_election s \<longrightarrow> higher_members (refreshed env s) \<noteq> [] \<longrightarrow>
        start_election n env s =
          handle_ok n env (send_election env (higher_members (refreshed env s)) (refreshed env s))"
    by (simp add: start_election.simps)
  have out: "map dest (outbox (send_election env (higher_members s) s)) =
       map dest (outbox s) @ map (\<lambda>(i, addr). Some addr) (higher_members s)"
    by (simp add: send_election_outbox attempts_for_dest)
  from ord irr tr asym tot tie sel run out show ?thesis by blast
qed

theorem identity_order_witness:
  "tuple_gt (10, 50) (5, 200) \<and> tuple_gt (5, 200) (5, 100) \<and> tuple_gt (10, 50) (5, 100)
   \<and> \<not> tuple_gt (5, 100) (5, 200)
   \<and> higher_members ((init_server (5, 100))\<lparr>members := peers\<rparr>)
       = [((5, 200), addr_B), ((10, 50), addr_C)]
   \<and> start_election 0 (lively_env peers) (init_server (5, 100)) =
       handle_ok 0 (lively_env peers)
         (send_election (lively_env peers) [((5, 200), addr_B), ((10, 50), addr_C)]
            (refreshed (lively_env peers) (init_server (5, 100))))"
  using identity_order [of 10 50 5 200 "(10, 50)" "(5, 200)" "(5, 100)"
      "(init_server (5, 100))\<lparr>members := peers\<rparr>" "lively_env peers" 0]
    identity_order [of 5 200 5 100 "(5, 200)" "(5, 100)" "(10, 50)"
      "init_server (5, 100)" "lively_env peers" 0]
  by (simp add: higher_members_def init_server_def peers_def tuple_gt_def lively_env_def
      connect_to_gcd_def)

lemma declare_leader_fields [simp]:
  "identity (declare_leader env s) = identity s"
  "in_election (declare_leader env s) = False"
  "current_leader (declare_leader env s) = Some (identity s)"
  "members (declare_leader env s) = members s"
  by (simp_all add: declare_leader_def)

lemma declare_leader_outbox:
  "outbox (declare_leader env s) =
     outbox s @ attempts_for env (clock s) (coordinator_message (identity s))
                  (filter (\<lambda>(i, a). i \<noteq> identity s) (members s))"
  by (simp add: declare_leader_def send_coordinator_outbox)

subsection \<open>Broadcasts are best effort\<close>

text \<open>
  Claim C8. In both broadcast loops a failed send is recorded for its peer and the loop
  goes on. Whatever the environment answers, the ELECTION loop of \<open>start_election\<close> adds
  one attempt for every higher member it was given, in order, each carrying the node's
  identity and members table; \<open>declare_leader\<close> adds one COORDINATOR attempt for every
  item of the members table whose identity is not the node's own. Whether an attempt was
  delivered is what the environment says for that peer at that moment, and has no
  influence on the attempts that follow. Both functions are total and return a server:
  the embedding has no exception to return, since the handler of each \<open>try\<close> block catches
  every exception of the send.
\<close>

theorem broadcast_best_effort:
  "(\<exists>new. outbox (send_election env hm s) = outbox s @ new
      \<and> map dest new = map (\<lambda>(i, addr). Some addr) hm
      \<and> (\<forall>x\<in>set new. payload x = election_message (identity s) (members s))
      \<and> (\<forall>j<length hm. delivered (new ! j) = reachable env (clock s + j) (snd (hm ! j))))
   \<and> (\<exists>new. outbox (declare_leader env s) = outbox s @ new
      \<and> map dest new =
          map (\<lambda>(i, addr). Some addr) (filter (\<lambda>(i, addr). i \<noteq> identity s) (members s))
      \<and> (\<forall>x\<in>set new. payload x = coordinator_message (identity s))
      \<and> (\<forall>j<length (filter (\<lambda>(i, addr). i \<noteq> identity s) (members s)).
            delivered (new ! j) =
              reachable env (clock s + j)
                (snd (filter (\<lambda>(i, addr). i \<noteq> identity s) (members s) ! j))))"
proof (intro conjI)
  let ?new = "attempts_for env (clock s) (election_message (identity s) (members s)) hm"
  have "outbox (send_election env hm s) = outbox s @ ?new"
    by (rule send_election_outbox)
  moreover have "map dest ?new = map (\<lambda>(i, addr). Some addr) hm"
    by (rule attempts_for_dest)
  moreover have "\<forall>x\<in>set ?new. payload x = election_message (identity s) (members s)"
    by (simp add: attempts_for_payload)
  moreover have "\<forall>j<length hm. delivered (?new ! j) = reachable env (clock s + j) (snd (hm ! j))"
    by (simp add: attempts_for_delivered)
  ultimately show "\<exists>new. outbox (send_election env hm s) = outbox s @ new
      \<and> map dest new = map (\<lambda>(i, addr). Some addr) hm
      \<and> (\<forall>x\<in>set new. payload x = election_message (identity s) (members s))
      \<and> (\<forall>j<length hm. delivered (new ! j) = reachable env (clock s + j) (snd (hm ! j)))"
    by blast
next
  let ?others = "filter (\<lambda>(i, addr). i \<noteq> identity s) (members s)"
  let ?new = "attempts_for env (clock s) (coordinator_message (identity s)) ?others"
  have "outbox (declare_leader env s) = outbox s @ ?new"
    by (rule declare_leader_outbox)
  moreover have "map dest ?new = map (\<lambda>(i, addr). Some addr) ?others"
    by (rule attempts_for_dest)
  moreover have "\<forall>x\<in>set ?new. payload x = coordinator_message (identity s)"
    by (simp add: attempts_for_payload)
  moreover have "\<forall>j<length ?others. delivered (?new ! j) = reachable env (clock s + j) (snd (?others ! j))"
    by (simp add: attempts_for_delivered)
  ultimately show "\<exists>new. outbox (declare_leader env s) = outbox s @ new
      \<and> map dest new = map (\<lambda>(i, addr). Some addr) ?others
      \<and> (\<forall>x\<in>set new. payload x = coordinator_message (identity s))
      \<and> (\<forall>j<length ?others. delivered (new ! j) = reachable env (clock s + j) (snd (?others ! j)))"
    by blast
qed

theorem broadcast_best_effort_witness:
  "map delivered (outbox (send_election deaf_B_env [((5, 200), addr_B), ((10, 50), addr_C)]
      ((init_server (5, 100))\<lparr>members := peers\<rparr>))) = [False, True]
   \<and> map dest (outbox (send_election deaf_B_env [((5, 200), addr_B), ((10, 50), addr_C)]
      ((init_server (5, 100))\<lparr>members := peers\<rparr>))) = [Some addr_B, Some addr_C]
   \<and> map delivered (outbox (declare_leader deaf_B_env
      ((init_server (10, 50))\<lparr>members := peers\<rparr>))) = [True, False]
   \<and> map dest (outbox (declare_leader deaf_B_env
      ((init_server (10, 50))\<lparr>members := peers\<rparr>))) = [Some addr_A, Some addr_B]"
  using broadcast_best_effort [of deaf_B_env "[((5, 200), addr_B), ((10, 50), addr_C)]"
      "(init_server (5, 100))\<lparr>members := peers\<rparr>"]
    broadcast_best_effort [of deaf_B_env "[]" "(init_server (10, 50))\<lparr>members := peers\<rparr>"]
  by (simp add: init_server_def peers_def deaf_B_env_def declare_leader_def
      addr_A_def addr_B_def addr_C_def)

lemma connect_to_gcd_fields [simp]:
  "identity (connect_to_gcd env s) = identity s"
  "in_election (connect_to_gcd env s) = in_election s"
  "current_leader (connect_to_gcd env s) = current_leader s"
  "outbox (connect_to_gcd env s) = outbox s"
  "clock (connect_to_gcd env s) = Suc (clock s)"
  "received_ok_event (connect_to_gcd env s) = received_ok_event s"
  "received_coord_event (connect_to_gcd env s) = received_coord_event s"
  by (simp_all add: connect_to_gcd_def split: gcd_response.splits)

lemma connect_to_gcd_members:
  "members (connect_to_gcd env s) =
     (case gcd_reply env (clock s) of GCD_dict d \<Rightarrow> d | GCD_other \<Rightarrow> members s
      | GCD_failed \<Rightarrow> members s)"
  by (simp add: connect_to_gcd_def split: gcd_response.splits)

lemma higher_members_empty:
  "higher_members s = [] \<longleftrightarrow> (\<forall>(i, addr)\<in>set (members s). \<not> tuple_gt i (identity s))"
  by (auto simp: higher_members_def filter_empty_conv)

subsection \<open>An election with no higher member\<close>

text \<open>
  Claim C2, amended. \<open>start_election\<close> asks the directory before it looks for higher
  members, and a dict answer replaces the members table. So what decides is the table
  after that refresh (the directory's answer when it is a dict, the old table otherwise):
  when the node is not in an election and the refreshed table holds no identity greater
  than its own, \<open>start_election\<close> returns, for every environment and every bound on further
  elections, with the state that \<open>declare_leader\<close> gives: \<open>current_leader\<close> is the node's own
  identity, \<open>in_election\<close> is false, and one COORDINATOR message carrying the node's identity
  was attempted to every item of the refreshed table other than the node itself, in the
  table's order.
\<close>

theorem start_election_no_higher:
  assumes "\<not> in_election s"
    and "\<forall>(i, addr)\<in>set (members (refreshed env s)). \<not> tuple_gt i (identity s)"
  shows "\<exists>s'. start_election n env s = Some s'
           \<and> s' = declare_leader env (refreshed env s)
           \<and> current_leader s' = Some (identity s)
           \<and> \<not> in_election s'
           \<and> members s' =
               (case gcd_reply env (clock s) of GCD_dict d \<Rightarrow> d | GCD_other \<Rightarrow> members s
                | GCD_failed \<Rightarrow> members s)
           \<and> (\<exists>new. outbox s' = outbox s @ new
                 \<and> map dest new =
                     map (\<lambda>(i, addr). Some addr)
                       (filter (\<lambda>(i, addr). i \<noteq> identity s) (members s'))
                 \<and> (\<forall>x\<in>set new. payload x = coordinator_message (identity s)))"
proof -
  let ?r = "refreshed env s"
  let ?s' = "declare_leader env ?r"
  let ?new = "attempts_for env (clock ?r) (coordinator_message (identity s))
                (filter (\<lambda>(i, addr). i \<noteq> identity s) (members ?r))"
  from assms(2) have "higher_members ?r = []"
    by (simp add: higher_members_empty)
  with assms(1) have run: "start_election n env s = Some ?s'"
    by (simp add: start_election.simps)
  have mem: "members ?s' =
      (case gcd_reply env (clock s) of GCD_dict d \<Rightarrow> d | GCD_other \<Rightarrow> members s
       | GCD_failed \<Rightarrow> members s)"
    by (simp add: connect_to_gcd_members split: gcd_response.splits)
  have out: "outbox ?s' = outbox s @ ?new"
    by (simp add: declare_leader_outbox)
  have dst: "map dest ?new =
      map (\<lambda>(i, addr). Some addr) (filter (\<lambda>(i, addr). i \<noteq> identity s) (members ?s'))"
    by (simp add: attempts_for_dest)
  have pay: "\<forall>x\<in>set ?new. payload x = coordinator_message (identity s)"
    by (simp add: attempts_for_payload)
  from run mem out dst pay show ?thesis
    by (intro exI [of _ ?s'] conjI exI [of _ ?new]) simp_all
qed

theorem start_election_no_higher_witness:
  "\<not> in_election ((init_server (10, 50))\<lparr>members := [((5, 100), addr_A)]\<rparr>)
   \<and> higher_members (refreshed deaf_B_env
          ((init_server (10, 50))\<lparr>members := [((5, 100), addr_A)]\<rparr>)) = []
   \<and> map_option current_leader (start_election 0 deaf_B_env
        ((init_server (10, 50))\<lparr>members := [((5, 100), addr_A)]\<rparr>)) = Some (Some (10, 50))
   \<and> map_option in_election (start_election 0 deaf_B_env
        ((init_server (10, 50))\<lparr>members := [((5, 100), addr_A)]\<rparr>)) = Some False
   \<and> map_option (map dest \<circ> outbox) (start_election 0 deaf_B_env
        ((init_server (10, 50))\<lparr>members := [((5, 100), addr_A)]\<rparr>))
       = Some [Some addr_A, Some addr_B]"
proof -
  let ?s = "(init_server (10, 50))\<lparr>members := [((5, 100), addr_A)]\<rparr>"
  have h1: "\<not> in_election ?s" by (simp add: init_server_def)
  have h2: "\<forall>(i, addr)\<in>set (members (refreshed deaf_B_env ?s)). \<not> tuple_gt i (identity ?s)"
    by (simp add: init_server_def connect_to_gcd_def deaf_B_env_def peers_def tuple_gt_def)
  from start_election_no_higher [OF h1 h2, of 0] h1 h2 show ?thesis
    by (simp add: init_server_def connect_to_gcd_def deaf_B_env_def peers_def tuple_gt_def
        declare_leader_def higher_members_def addr_A_def addr_B_def addr_C_def)
qed


text \<open>
  The claim as written reads the table before the call. A node that has just been
  constructed has an empty table, hence no higher member in it; the directory then reports
  the three nodes, and the node (5, 100) sends two ELECTION messages, gets OK and
  COORDINATOR, and returns without having declared itself: no leader was set by this
  call and the election flag is still true.
\<close>

theorem start_election_stale_registry_counterexample:
  "higher_members (init_server (5, 100)) = []
   \<and> \<not> in_election (init_server (5, 100))
   \<and> map_option current_leader (start_election 0 (lively_env peers) (init_server (5, 100)))
       = Some None
   \<and> map_option in_election (start_election 0 (lively_env peers) (init_server (5, 100)))
       = Some True
   \<and> map_option (map (message_name \<circ> payload) \<circ> outbox)
        (start_election 0 (lively_env peers) (init_server (5, 100)))
       = Some [''ELECTION'', ''ELECTION'']"
  by (simp add: init_server_def connect_to_gcd_def lively_env_def peers_def tuple_gt_def
      higher_members_def ok_wait_def coord_wait_def event_wait_def election_message_def
      addr_A_def addr_B_def addr_C_def start_election.simps handle_ok.simps
      wait_for_coordinator.simps)

subsection \<open>The two waits\<close>

text \<open>
  Claim C4. When higher members exist, \<open>start_election\<close> goes from the ELECTION broadcast
  into \<open>handle_ok\<close>, which waits on a fresh event for at most 5 seconds. If the OK
  arrives at a moment before 5, \<open>handle_ok\<close> continues as \<open>wait_for_coordinator\<close>; if it
  arrives at 5 or later, or never, \<open>handle_ok\<close> returns what \<open>declare_leader\<close> gives.
\<close>

theorem ok_wait_phase:
  "(\<not> in_election s \<longrightarrow> higher_members (refreshed env s) \<noteq> [] \<longrightarrow>
      start_election n env s =
        handle_ok n env (send_election env (higher_members (refreshed env s)) (refreshed env s)))
   \<and> (\<forall>t. ok_arrival env (clock s) = Some t \<longrightarrow> t < 5 \<longrightarrow>
         handle_ok n env s =
           wait_for_coordinator n env (s\<lparr>received_ok_event := Some True, clock := Suc (clock s)\<rparr>))
   \<and> (ok_arrival env (clock s) = None \<or> (\<exists>t. ok_arrival env (clock s) = Some t \<and> 5 \<le> t) \<longrightarrow>
         handle_ok n env s =
           Some (declare_leader env
                   (s\<lparr>received_ok_event := Some False, clock := Suc (clock s)\<rparr>)))"
proof (intro conjI allI impI)
  assume "\<not> in_election s" and "higher_members (refreshed env s) \<noteq> []"
  then show "start_election n env s =
        handle_ok n env (send_election env (higher_members (refreshed env s)) (refreshed env s))"
    by (simp add: start_election.simps)
next
  fix t :: real
  assume "ok_arrival env (clock s) = Some t" and "t < 5"
  then show "handle_ok n env s =
      wait_for_coordinator n env (s\<lparr>received_ok_event := Some True, clock := Suc (clock s)\<rparr>)"
    by (simp add: handle_ok.simps ok_wait_def event_wait_def)
next
  assume "ok_arrival env (clock s) = None \<or> (\<exists>t. ok_arrival env (clock s) = Some t \<and> 5 \<le> t)"
  then have "\<not> event_wait 5 (ok_arrival env (clock s))"
    by (auto simp: event_wait_def)
  then show "handle_ok n env s =
      Some (declare_leader env (s\<lparr>received_ok_event := Some False, clock := Suc (clock s)\<rparr>))"
    by (simp add: handle_ok.simps ok_wait_def)
qed

text \<open>
  Claim C5. \<open>wait_for_coordinator\<close> waits on a fresh event for at most 15 seconds. If
  the COORDINATOR arrives at a moment before 15, it returns and has changed nothing but
  the event (and the count of interactions): \<open>in_election\<close>, \<open>current_leader\<close>, the members
  table and the record of sends are as before. If it arrives at 15 or later, or never, the
  call sets \<open>in_election\<close> to false and continues as \<open>start_election\<close> from that state, as
  long as a further election is allowed.
\<close>

theorem coordinator_wait_phase:
  "(\<forall>t. coord_arrival env (clock s) = Some t \<longrightarrow> t < 15 \<longrightarrow>
         wait_for_coordinator n env s =
           Some (s\<lparr>received_coord_event := Some True, clock := Suc (clock s)\<rparr>))
   \<and> (coord_arrival env (clock s) = None
        \<or> (\<exists>t. coord_arrival env (clock s) = Some t \<and> 15 \<le> t) \<longrightarrow>
         wait_for_coordinator (Suc n) env s =
           start_election n env
             (s\<lparr>received_coord_event := Some False, clock := Suc (clock s),
                in_election := False\<rparr>))"
proof (intro conjI allI impI)
  fix t :: real
  assume "coord_arrival env (clock s) = Some t" and "t < 15"
  then show "wait_for_coordinator n env s =
      Some (s\<lparr>received_coord_event := Some True, clock := Suc (clock s)\<rparr>)"
    by (cases n) (simp_all add: wait_for_coordinator.simps coord_wait_def event_wait_def)
next
  assume "coord_arrival env (clock s) = None
        \<or> (\<exists>t. coord_arrival env (clock s) = Some t \<and> 15 \<le> t)"
  then have "\<not> event_wait 15 (coord_arrival env (clock s))"
    by (auto simp: event_wait_def)
  then show "wait_for_coordinator (Suc n) env s =
      start_election n env
        (s\<lparr>received_coord_event := Some False, clock := Suc (clock s), in_election := False\<rparr>)"
    by (simp add: wait_for_coordinator.simps coord_wait_def)
qed

theorem ok_wait_phase_witness:
  "handle_ok 0 (lively_env peers) ((init_server (5, 100))\<lparr>in_election := True\<rparr>) =
     wait_for_coordinator 0 (lively_env peers)
       ((init_server (5, 100))\<lparr>in_election := True, received_ok_event := Some True, clock := 1\<rparr>)
   \<and> handle_ok 0 deaf_B_env ((init_server (5, 100))\<lparr>in_election := True\<rparr>) =
       Some (declare_leader deaf_B_env
         ((init_server (5, 100))\<lparr>in_election := True, received_ok_event := Some False, clock := 1\<rparr>))
   \<and> map_option current_leader
         (handle_ok 0 deaf_B_env ((init_server (5, 100))\<lparr>in_election := True\<rparr>))
       = Some (Some (5, 100))"
  using ok_wait_phase [of "(init_server (5, 100))\<lparr>in_election := True\<rparr>" "lively_env peers" 0]
    ok_wait_phase [of "(init_server (5, 100))\<lparr>in_election := True\<rparr>" deaf_B_env 0]
  by (simp add: init_server_def lively_env_def deaf_B_env_def)

theorem coordinator_wait_phase_witness:
  "wait_for_coordinator 1 (lively_env peers) ((init_server (5, 100))\<lparr>in_election := True\<rparr>) =
     Some ((init_server (5, 100))\<lparr>in_election := True, received_coord_event := Some True, clock := 1\<rparr>)
   \<and> wait_for_coordinator 1 deaf_B_env ((init_server (5, 100))\<lparr>in_election := True\<rparr>) =
       start_election 0 deaf_B_env
         ((init_server (5, 100))\<lparr>in_election := False, received_coord_event := Some False, clock := 1\<rparr>)"
  using coordinator_wait_phase [of "lively_env peers" "(init_server (5, 100))\<lparr>in_election := True\<rparr>" 1]
   coordinator_wait_phase [of deaf_B_env "(init_server (5, 100))\<lparr>in_election := True\<rparr>" 0]
  by (simp add: init_server_def lively_env_def deaf_B_env_def)

subsection \<open>Dict operations\<close>

lemma map_of_dict_setitem: "map_of (dict_setitem d k v) = (map_of d)(k \<mapsto> v)"
  by (induction d k v rule: dict_setitem.induct) (auto simp: fun_eq_iff)

lemma keys_dict_setitem: "fst ` set (dict_setitem d k v) = insert k (fst ` set d)"
  by (induction d k v rule: dict_setitem.induct) auto

lemma map_fst_dict_setitem:
  "map fst (dict_setitem d k v) = (if k \<in> fst ` set d then map fst d else map fst d @ [k])"
  by (induction d k v rule: dict_setitem.induct) auto

lemma length_dict_setitem: "length d \<le> length (dict_setitem d k v)"
  by (induction d k v rule: dict_setitem.induct) auto

lemma wf_dict_setitem: "wf_dict d \<Longrightarrow> wf_dict (dict_setitem d k v)"
  by (simp add: wf_dict_def map_fst_dict_setitem)

lemma keys_dict_update: "fst ` set (dict_update d other) = fst ` set d \<union> fst ` set other"
  by (induction d other rule: dict_update.induct) (auto simp: keys_dict_setitem)

lemma length_dict_update: "length d \<le> length (dict_update d other)"
proof (induction d other rule: dict_update.induct)
  case (1 d)
  then show ?case by simp
next
  case (2 d k v other)
  have "length d \<le> length (dict_setitem d k v)" by (rule length_dict_setitem)
  with 2 show ?case by simp
qed

lemma wf_dict_update: "wf_dict d \<Longrightarrow> wf_dict (dict_update d other)"
  by (induction d other rule: dict_update.induct) (simp_all add: wf_dict_setitem)

lemma dict_update_other_key:
  "map_of other k = None \<Longrightarrow> map_of (dict_update d other) k = map_of d k"
proof (induction d other rule: dict_update.induct)
  case (1 d)
  then show ?case by simp
next
  case (2 d k' v other)
  from "2.prems" have "k' \<noteq> k" and "map_of other k = None"
    by (auto split: if_splits)
  with "2.IH" show ?case by (simp add: map_of_dict_setitem)
qed

lemma map_of_dict_update:
  "wf_dict other \<Longrightarrow> map_of (dict_update d other) = map_of d ++ map_of other"
proof (induction d other rule: dict_update.induct)
  case (1 d)
  then show ?case by simp
next
  case (2 d k v other)
  from "2.prems" have fresh: "k \<notin> fst ` set other" and wf: "wf_dict other"
    by (auto simp: wf_dict_def)
  from fresh have none: "map_of other k = None"
    by (simp add: map_of_eq_None_iff)
  have "map_of (dict_update (dict_setitem d k v) other) =
      map_of (dict_setitem d k v) ++ map_of other"
    using wf by (rule "2.IH")
  also have "\<dots> = (map_of d)(k \<mapsto> v) ++ map_of other"
    by (simp only: map_of_dict_setitem)
  also have "\<dots> = map_of d ++ map_of ((k, v) # other)"
    using none by (auto simp: fun_eq_iff map_add_def split: option.splits)
  finally show ?case by (simp only: dict_update.simps)
qed

subsection \<open>Receiving an ELECTION message\<close>

text \<open>
  Claim C3. \<open>handle_election\<close> first merges the sender's snapshot into the members
  table by \<open>dict.update\<close>: as a lookup table the result is the old table overridden by
  the snapshot (the union, the snapshot winning on a common identity). It then attempts
  one OK message to the sender's address, whatever the sender's identity is (the identity
  is not compared with anything), and records the outcome. Last, if \<open>in_election\<close> is
  false it continues as the node's own \<open>start_election\<close> from that state, and otherwise
  returns that state.
\<close>

theorem handle_election_behaviour:
  assumes "wf_dict sender_members"
  shows "\<exists>s1. members s1 = dict_update (members s) sender_members
          \<and> map_of (members s1) = map_of (members s) ++ map_of sender_members
          \<and> outbox s1 = outbox s @
               [\<lparr>dest = sender_address, payload = ok_message,
                 delivered = (case sender_address of None \<Rightarrow> False
                              | Some a \<Rightarrow> reachable env (clock s) a)\<rparr>]
          \<and> identity s1 = identity s
          \<and> in_election s1 = in_election s
          \<and> current_leader s1 = current_leader s
          \<and> received_ok_event s1 = received_ok_event s
          \<and> received_coord_event s1 = received_coord_event s
          \<and> clock s1 = Suc (clock s)
          \<and> handle_election n env sender_identity sender_address sender_members s =
               (if in_election s then Some s1 else start_election n env s1)"
proof -
  let ?s1 = "try_send env sender_address ok_message
               (s\<lparr>members := dict_update (members s) sender_members\<rparr>)"
  have "map_of (members ?s1) = map_of (members s) ++ map_of sender_members"
    using assms by (simp add: map_of_dict_update)
  moreover have "handle_election n env sender_identity sender_address sender_members s =
      (if in_election s then Some ?s1 else start_election n env ?s1)"
    by (simp add: handle_election_def Let_def)
  ultimately show ?thesis
    by (intro exI [of _ ?s1]) (simp split: option.splits)
qed

theorem handle_election_behaviour_witness:
  "wf_dict ([((5, 100), addr_A), ((5, 200), (''localhost'', 6002))] :: registry)
   \<and> map_option members
        (handle_election 0 deaf_B_env (Some (5, 100)) (Some addr_A)
           [((5, 100), addr_A), ((5, 200), (''localhost'', 6002))]
           ((init_server (10, 50))\<lparr>in_election := True, members := [((5, 200), addr_B), ((10, 50), addr_C)]\<rparr>))
       = Some [((5, 200), (''localhost'', 6002)), ((10, 50), addr_C), ((5, 100), addr_A)]
   \<and> map_option outbox
        (handle_election 0 deaf_B_env (Some (5, 100)) (Some addr_A)
           [((5, 100), addr_A), ((5, 200), (''localhost'', 6002))]
           ((init_server (10, 50))\<lparr>in_election := True, members := [((5, 200), addr_B), ((10, 50), addr_C)]\<rparr>))
       = Some [\<lparr>dest = Some addr_A, payload = ok_message, delivered = True\<rparr>]
   \<and> map_option current_leader
        (handle_election 0 silent_env (Some (5, 100)) (Some addr_A)
           [((5, 100), addr_A), ((5, 200), (''localhost'', 6002))] (init_server (10, 50)))
       = Some (Some (10, 50))"
proof -
  have h: "wf_dict ([((5, 100), addr_A), ((5, 200), (''localhost'', 6002))] :: registry)"
    by (simp add: wf_dict_def)
  from handle_election_behaviour [OF h, of
      "(init_server (10, 50))\<lparr>in_election := True, members := [((5, 200), addr_B), ((10, 50), addr_C)]\<rparr>"
      "Some addr_A" deaf_B_env 0 "Some (5, 100)"]
    handle_election_behaviour [OF h, of "init_server (10, 50)"
      "Some addr_A" silent_env 0 "Some (5, 100)"] h
  show ?thesis
    by (auto simp: init_server_def deaf_B_env_def silent_env_def addr_A_def addr_B_def
        addr_C_def start_election.simps connect_to_gcd_def higher_members_def tuple_gt_def)
qed

subsection \<open>Growth of the members table\<close>

text \<open>
  Claim C1, amended. The merge of a snapshot received in an ELECTION message removes no
  identity from the members table and does not make it shorter, and every identity that
  the snapshot does not mention keeps its address; a call of \<open>handle_election\<close> that
  does not start an election of its own leaves exactly the merged table. A directory
  refresh, \<open>connect_to_gcd\<close>, replaces the whole table by the directory's answer when
  that answer is a dict, and leaves the table as it was otherwise.
\<close>

theorem registry_growth:
  "fst ` set (members s) \<subseteq> fst ` set (dict_update (members s) snap)
   \<and> length (members s) \<le> length (dict_update (members s) snap)
   \<and> (map_of snap k = None \<longrightarrow>
         map_of (dict_update (members s) snap) k = map_of (members s) k)
   \<and> (in_election s \<longrightarrow>
         map_option members (handle_election n env sid a snap s)
           = Some (dict_update (members s) snap))
   \<and> members (connect_to_gcd env s) =
       (case gcd_reply env (clock s) of GCD_dict d \<Rightarrow> d | GCD_other \<Rightarrow> members s
        | GCD_failed \<Rightarrow> members s)"
proof (intro conjI impI)
  show "fst ` set (members s) \<subseteq> fst ` set (dict_update (members s) snap)"
    by (simp add: keys_dict_update)
  show "length (members s) \<le> length (dict_update (members s) snap)"
    by (rule length_dict_update)
  show "map_of (dict_update (members s) snap) k = map_of (members s) k"
    if "map_of snap k = None" using that by (rule dict_update_other_key)
  show "map_option members (handle_election n env sid a snap s)
           = Some (dict_update (members s) snap)" if "in_election s"
    using that by (simp add: handle_election_def Let_def)
  show "members (connect_to_gcd env s) =
       (case gcd_reply env (clock s) of GCD_dict d \<Rightarrow> d | GCD_other \<Rightarrow> members s
        | GCD_failed \<Rightarrow> members s)"
    by (rule connect_to_gcd_members)
qed

theorem registry_growth_witness:
  "map_option members (handle_election 0 silent_env (Some (5, 100)) (Some addr_A)
       [((5, 100), addr_A)] ((init_server (10, 50))\<lparr>in_election := True, members := [((10, 50), addr_C)]\<rparr>))
     = Some [((10, 50), addr_C), ((5, 100), addr_A)]
   \<and> members (connect_to_gcd silent_env
        ((init_server (10, 50))\<lparr>members := [((10, 50), addr_C), ((5, 100), addr_A)]\<rparr>))
       = [((10, 50), addr_C), ((5, 100), addr_A)]
   \<and> members (connect_to_gcd (lively_env peers)
        ((init_server (10, 50))\<lparr>members := [((10, 50), addr_C), ((5, 100), addr_A)]\<rparr>))
       = peers"
  using registry_growth [of "(init_server (10, 50))\<lparr>in_election := True, members := [((10, 50), addr_C)]\<rparr>"
      "[((5, 100), addr_A)]" "(5, 200)" 0 silent_env "Some (5, 100)" "Some addr_A"]
    registry_growth [of "(init_server (10, 50))\<lparr>members := [((10, 50), addr_C), ((5, 100), addr_A)]\<rparr>"
      "[]" "(5, 200)" 0 silent_env None None]
    registry_growth [of "(init_server (10, 50))\<lparr>members := [((10, 50), addr_C), ((5, 100), addr_A)]\<rparr>"
      "[]" "(5, 200)" 0 "lively_env peers" None None]
  by (simp add: init_server_def silent_env_def lively_env_def addr_A_def addr_C_def)

text \<open>
  The claim as written has a refresh keep the entries learnt from peers. Node (10, 50)
  learns (5, 100) from an ELECTION message; the directory then answers with (10, 50)
  alone, and the entry of (5, 100) is gone, both after \<open>connect_to_gcd\<close> on the merged
  table and after the one call of \<open>handle_request\<close> that merges and then runs the node's
  own election.
\<close>

theorem refresh_drops_peer_entry_counterexample:
  "map_option members (handle_election 0 silent_env (Some (5, 100)) (Some addr_A)
       [((5, 100), addr_A)] ((init_server (10, 50))\<lparr>in_election := True\<rparr>))
     = Some [((5, 100), addr_A)]
   \<and> map_of ([((10, 50), addr_C)] :: registry) (5, 100) = None
   \<and> members (connect_to_gcd (lively_env [((10, 50), addr_C)])
        ((init_server (10, 50))\<lparr>in_election := True, members := [((5, 100), addr_A)]\<rparr>))
       = [((10, 50), addr_C)]
   \<and> map_option (map_sum id members)
        (handle_request 0 (lively_env [((10, 50), addr_C)])
           (election_message (5, 100) [((5, 100), addr_A)]) (init_server (10, 50)))
       = Some (Inr [((10, 50), addr_C)])"
  by (simp add: handle_election_def handle_request_def init_server_def silent_env_def
      lively_env_def connect_to_gcd_def election_message_def start_election.simps
      higher_members_def tuple_gt_def)

subsection \<open>What an election leaves of the leader and the identity\<close>

lemma ok_wait_fields [simp]:
  "fst (ok_wait env s) = event_wait 5 (ok_arrival env (clock s))"
  "identity (snd (ok_wait env s)) = identity s"
  "in_election (snd (ok_wait env s)) = in_election s"
  "current_leader (snd (ok_wait env s)) = current_leader s"
  "members (snd (ok_wait env s)) = members s"
  "outbox (snd (ok_wait env s)) = outbox s"
  "clock (snd (ok_wait env s)) = Suc (clock s)"
  by (simp_all add: ok_wait_def Let_def)

lemma coord_wait_fields [simp]:
  "fst (coord_wait env s) = event_wait 15 (coord_arrival env (clock s))"
  "identity (snd (coord_wait env s)) = identity s"
  "in_election (snd (coord_wait env s)) = in_election s"
  "current_leader (snd (coord_wait env s)) = current_leader s"
  "members (snd (coord_wait env s)) = members s"
  "outbox (snd (coord_wait env s)) = outbox s"
  "clock (snd (coord_wait env s)) = Suc (clock s)"
  by (simp_all add: coord_wait_def Let_def)

lemma election_leader:
  "\<forall>s'. start_election n env s = Some s' \<longrightarrow>
     identity s' = identity s
     \<and> (current_leader s' = current_leader s \<or> current_leader s' = Some (identity s))"
  "\<forall>s'. handle_ok n env s = Some s' \<longrightarrow>
     identity s' = identity s
     \<and> (current_leader s' = current_leader s \<or> current_leader s' = Some (identity s))"
  "\<forall>s'. wait_for_coordinator n env s = Some s' \<longrightarrow>
     identity s' = identity s
     \<and> (current_leader s' = current_leader s \<or> current_leader s' = Some (identity s))"
proof (induct n env s and n env s and n env s
    rule: start_election_handle_ok_wait_for_coordinator.induct)
  case (1 n env s)
  let ?r = "refreshed env s"
  let ?b = "send_election env (higher_members ?r) ?r"
  show ?case
  proof (intro allI impI)
    fix s'
    assume run: "start_election n env s = Some s'"
    consider (busy) "in_election s"
      | (top) "\<not> in_election s" "higher_members ?r = []"
      | (ask) "\<not> in_election s" "higher_members ?r \<noteq> []"
      by blast
    then show "identity s' = identity s
      \<and> (current_leader s' = current_leader s \<or> current_leader s' = Some (identity s))"
    proof cases
      case busy
      with run have "s' = s" by (simp add: start_election.simps)
      then show ?thesis by simp
    next
      case top
      with run have "s' = declare_leader env ?r" by (simp add: start_election.simps)
      then show ?thesis by simp
    next
      case ask
      with run have "handle_ok n env ?b = Some s'" by (simp add: start_election.simps)
      with "1.hyps" [OF ask] have "identity s' = identity ?b
        \<and> (current_leader s' = current_leader ?b \<or> current_leader s' = Some (identity ?b))"
        by blast
      then show ?thesis by simp
    qed
  qed
next
  case (2 n env s)
  let ?w = "snd (ok_wait env s)"
  show ?case
  proof (intro allI impI)
    fix s'
    assume run: "handle_ok n env s = Some s'"
    show "identity s' = identity s
      \<and> (current_leader s' = current_leader s \<or> current_leader s' = Some (identity s))"
    proof (cases "fst (ok_wait env s)")
      case True
      with run have "wait_for_coordinator n env ?w = Some s'" by (simp add: handle_ok.simps)
      with "2.hyps" [OF True] have "identity s' = identity ?w
        \<and> (current_leader s' = current_leader ?w \<or> current_leader s' = Some (identity ?w))"
        by blast
      then show ?thesis by simp
    next
      case False
      with run have "s' = declare_leader env ?w" by (simp add: handle_ok.simps)
      then show ?thesis by simp
    qed
  qed
next
  case (3 env s)
  show ?case
  proof (intro allI impI)
    fix s'
    assume run: "wait_for_coordinator 0 env s = Some s'"
    then have "s' = snd (coord_wait env s)"
      by (simp add: wait_for_coordinator.simps split: if_splits)
    then show "identity s' = identity s
      \<and> (current_leader s' = current_leader s \<or> current_leader s' = Some (identity s))"
      by simp
  qed
next
  case (4 n env s)
  let ?w = "(snd (coord_wait env s))\<lparr>in_election := False\<rparr>"
  show ?case
  proof (intro allI impI)
    fix s'
    assume run: "wait_for_coordinator (Suc n) env s = Some s'"
    show "identity s' = identity s
      \<and> (current_leader s' = current_leader s \<or> current_leader s' = Some (identity s))"
    proof (cases "fst (coord_wait env s)")
      case True
      with run have "s' = snd (coord_wait env s)" by (simp add: wait_for_coordinator.simps)
      then show ?thesis by simp
    next
      case False
      with run have "start_election n env ?w = Some s'" by (simp add: wait_for_coordinator.simps)
      with "4.hyps" [OF False] have "identity s' = identity ?w
        \<and> (current_leader s' = current_leader ?w \<or> current_leader s' = Some (identity ?w))"
        by blast
      then show ?thesis by simp
    qed
  qed
qed



lemma handle_election_leader:
  assumes "handle_election n env i a d s = Some s'"
  shows "identity s' = identity s
     \<and> (current_leader s' = current_leader s \<or> current_leader s' = Some (identity s))"
proof -
  let ?s1 = "try_send env a ok_message (s\<lparr>members := dict_update (members s) d\<rparr>)"
  show ?thesis
  proof (cases "in_election s")
    case True
    with assms have "s' = ?s1" by (simp add: handle_election_def Let_def)
    then show ?thesis by simp
  next
    case False
    with assms have "start_election n env ?s1 = Some s'"
      by (simp add: handle_election_def Let_def)
    with election_leader(1) [of n env ?s1] show ?thesis by simp
  qed
qed

lemma handle_request_leader:
  assumes "handle_request n env m s = Some (Inr s')"
  shows "identity s' = identity s
     \<and> (current_leader s' = current_leader s \<or> current_leader s' = Some (identity s)
         \<or> (message_name m = ''COORDINATOR'' \<and> current_leader s' = message_data m))"
proof -
  consider (election) "message_name m = ''ELECTION''"
    | (coordinator) "message_name m = ''COORDINATOR''"
    | (ok) "message_name m = ''OK''"
    | (unknown) "message_name m \<noteq> ''ELECTION''" "message_name m \<noteq> ''COORDINATOR''"
        "message_name m \<noteq> ''OK''"
    by blast
  then show ?thesis
  proof cases
    case election
    with assms obtain d where d: "members_data m = Some d"
      by (cases "members_data m") (simp_all add: handle_request_def)
    with election assms have
      "handle_election n env (message_data m)
         (case message_data m of None \<Rightarrow> None | Some i \<Rightarrow> map_of d i) d s = Some s'"
      by (auto simp: handle_request_def)
    then show ?thesis using handle_election_leader by blast
  next
    case coordinator
    with assms have "s' = handle_leader (message_data m) s"
      by (simp add: handle_request_def)
    with coordinator show ?thesis by (simp add: handle_leader_def)
  next
    case ok
    with assms have "s' = handle_ok_received s"
      by (simp add: handle_request_def)
    then show ?thesis by (simp add: handle_ok_received_def)
  next
    case unknown
    with assms have "s' = s" by (simp add: handle_request_def)
    then show ?thesis by simp
  qed
qed

subsection \<open>The sources of the leader\<close>

text \<open>
  Claim C10, amended. \<open>current_leader\<close> is \<open>None\<close> at construction. \<open>declare_leader\<close>
  assigns it the node's own identity and \<open>handle_leader\<close> assigns it the payload of the
  COORDINATOR message, whatever that is; nothing else assigns it. So after a call of
  \<open>start_election\<close> that returns, the leader is the one before the call or the node's own
  identity, and after a call of \<open>handle_request\<close> that returns a server it is the one
  before, the node's own identity, or the payload of the COORDINATOR message handled; the
  node's identity itself never changes. A leader that is set is therefore still set after
  any call, except after a COORDINATOR message whose payload is \<open>None\<close> (a tuple with no
  second component, or with \<open>None\<close> there), which \<open>handle_leader\<close> stores as it is.
\<close>

theorem current_leader_sources:
  "current_leader (init_server i) = None
   \<and> current_leader (declare_leader env s) = Some (identity s)
   \<and> current_leader (handle_leader new_leader_identity s) = new_leader_identity
   \<and> (start_election n env s = Some s' \<longrightarrow>
        identity s' = identity s
        \<and> (current_leader s' = current_leader s \<or> current_leader s' = Some (identity s)))
   \<and> (handle_request n env m s = Some (Inr s') \<longrightarrow>
        identity s' = identity s
        \<and> (current_leader s' = current_leader s \<or> current_leader s' = Some (identity s)
            \<or> (message_name m = ''COORDINATOR'' \<and> current_leader s' = message_data m)))
   \<and> (current_leader s \<noteq> None \<longrightarrow> start_election n env s = Some s' \<longrightarrow>
        current_leader s' \<noteq> None)
   \<and> (current_leader s \<noteq> None \<longrightarrow>
        \<not> (message_name m = ''COORDINATOR'' \<and> message_data m = None) \<longrightarrow>
        handle_request n env m s = Some (Inr s') \<longrightarrow> current_leader s' \<noteq> None)"
proof (intro conjI impI)
  show "current_leader (init_server i) = None" by (simp add: init_server_def)
  show "current_leader (declare_leader env s) = Some (identity s)" by simp
  show "current_leader (handle_leader new_leader_identity s) = new_leader_identity"
    by (simp add: handle_leader_def)
  show "identity s' = identity s" if "start_election n env s = Some s'"
    using that election_leader(1) by blast
  show "current_leader s' = current_leader s \<or> current_leader s' = Some (identity s)"
    if "start_election n env s = Some s'"
    using that election_leader(1) by blast
  show "identity s' = identity s" if "handle_request n env m s = Some (Inr s')"
    using that handle_request_leader by blast
  show "current_leader s' = current_leader s \<or> current_leader s' = Some (identity s)
        \<or> (message_name m = ''COORDINATOR'' \<and> current_leader s' = message_data m)"
    if "handle_request n env m s = Some (Inr s')"
    using that handle_request_leader by blast
  show "current_leader s' \<noteq> None"
    if "current_leader s \<noteq> None" and "start_election n env s = Some s'"
    using that election_leader(1) [of n env s] by auto
  show "current_leader s' \<noteq> None"
    if "current_leader s \<noteq> None"
      and "\<not> (message_name m = ''COORDINATOR'' \<and> message_data m = None)"
      and "handle_request n env m s = Some (Inr s')"
    using that handle_request_leader [of n env m s s'] by auto
qed

theorem current_leader_sources_witness:
  "map_option current_leader
     (start_election 0 silent_env ((init_server (5, 100))\<lparr>current_leader := Some (10, 50)\<rparr>))
     = Some (Some (5, 100))
   \<and> map_option (map_sum id current_leader)
       (handle_request 0 silent_env (coordinator_message (5, 200))
          ((init_server (5, 100))\<lparr>current_leader := Some (10, 50)\<rparr>))
     = Some (Inr (Some (5, 200)))
   \<and> map_option (map_sum id current_leader)
       (handle_request 0 silent_env ok_message
          ((init_server (5, 100))\<lparr>current_leader := Some (10, 50)\<rparr>))
     = Some (Inr (Some (10, 50)))"
  using current_leader_sources [of "(5, 100)" silent_env
      "(init_server (5, 100))\<lparr>current_leader := Some (10, 50)\<rparr>" "Some (5, 200)" 0
      "declare_leader silent_env ((init_server (5, 100))\<lparr>current_leader := Some (10, 50), in_election := True, clock := 1\<rparr>)"
      "coordinator_message (5, 200)"]
  by (simp add: init_server_def silent_env_def coordinator_message_def ok_message_def
      handle_request_def handle_leader_def handle_ok_received_def start_election.simps
      connect_to_gcd_def higher_members_def)

text \<open>
  The claim as written lets no call reset a leader that is set. \<open>handle_request\<close> reads a
  missing second component as \<open>None\<close> and \<open>handle_leader\<close> assigns what it is given: the
  message \<open>('COORDINATOR',)\<close> takes the leader (10, 50) back to \<open>None\<close>.
\<close>

theorem coordinator_without_identity_counterexample:
  "current_leader ((init_server (5, 100))\<lparr>current_leader := Some (10, 50)\<rparr>) = Some (10, 50)
   \<and> map_option (map_sum id current_leader)
       (handle_request 0 silent_env
          \<lparr>message_name = ''COORDINATOR'', message_data = None, members_data = None\<rparr>
          ((init_server (5, 100))\<lparr>current_leader := Some (10, 50)\<rparr>))
     = Some (Inr None)"
  by (simp add: init_server_def handle_request_def handle_leader_def)



subsection \<open>An ELECTION message whose snapshot lacks the sender\<close>




end
